theory Spec2Isabelle
  imports Main
begin

section \<open>Data model (shared/schema.ts)\<close>

text \<open>
  The per-URL status entry, \<^verbatim>\<open>urlStatusSchema\<close>: the status is the zod enum
  \<^verbatim>\<open>"pending" | "processing" | "complete" | "failed"\<close>, the error is optional.
  An absent \<^verbatim>\<open>error\<close> key and a key holding \<^verbatim>\<open>undefined\<close> are both \<open>None\<close>.
\<close>

datatype UrlState = Pending | Processing | Complete | Failed

record UrlStatus =
  url :: string
  url_status :: UrlState
  url_error :: "string option"

text \<open>
  The column \<^verbatim>\<open>urlStatuses\<close> is \<^verbatim>\<open>jsonb\<close>: any JSON value. The code only
  distinguishes arrays (\<^verbatim>\<open>Array.isArray\<close>) from everything else; a non-array value
  keeps its serialised text.
\<close>

datatype UrlStatusesJson = StatusArray "UrlStatus list" | NonArray string

text \<open>
  A key of a JavaScript object is in one of three states: the object has no such key,
  the key is there and holds \<^verbatim>\<open>undefined\<close>, or it holds a value. The object spread
  tells the first two apart: \<^verbatim>\<open>{ ...a, ...b }\<close> takes from \<^verbatim>\<open>b\<close> every key
  \<^verbatim>\<open>b\<close> has, also one that holds \<^verbatim>\<open>undefined\<close>.
\<close>

datatype 'a slot = Absent | Undefined | Value 'a

text \<open>
  A job object: the ten keys of \<^verbatim>\<open>PdfJob\<close>. The job status is a plain
  \<^verbatim>\<open>string\<close> in the code. The in-memory store copies what it is given and applies no
  column default, so a stored object need not have every key. \<^verbatim>\<open>Partial<PdfJob>\<close>,
  the type of the field sets passed to the update, is the same kind of object: any key
  may be missing or hold \<^verbatim>\<open>undefined\<close>.
\<close>

record PdfJob =
  id_job :: "nat slot"
  jobId :: "string slot"
  urls :: "string list slot"
  outputPath :: "string slot"
  status :: "string slot"
  completed :: "bool slot"
  urlStatuses :: "UrlStatusesJson slot"
  successCount :: "int slot"
  failCount :: "int slot"
  createdAt :: "string slot"

type_synonym PdfJobPartial = PdfJob

text \<open>
  \<^verbatim>\<open>InsertPdfJob\<close>: the six picked columns; the two with a default are optional.
\<close>

record InsertPdfJob =
  i_jobId :: string
  i_urls :: "string list"
  i_outputPath :: string
  i_status :: "string slot"
  i_completed :: "bool slot"
  i_urlStatuses :: UrlStatusesJson

text \<open>
  The object spread \<^verbatim>\<open>{ ...job, ...updates }\<close>, key by key: a key that
  \<^verbatim>\<open>updates\<close> has wins, whatever it holds; a key it does not have is taken from
  \<^verbatim>\<open>job\<close>. The spread of one object, \<^verbatim>\<open>{ ...job }\<close>, is a copy of it, so the
  field set \<^verbatim>\<open>{ ...job, status }\<close> is the record \<open>job\<close> with \<open>status\<close> updated.
\<close>

definition override :: "'a slot \<Rightarrow> 'a slot \<Rightarrow> 'a slot" where
  "override old new = (case new of Absent \<Rightarrow> old | Undefined \<Rightarrow> Undefined | Value v \<Rightarrow> Value v)"

definition merge :: "PdfJob \<Rightarrow> PdfJobPartial \<Rightarrow> PdfJob" where
  "merge job updates =
     \<lparr> id_job = override (id_job job) (id_job updates),
       jobId = override (jobId job) (jobId updates),
       urls = override (urls job) (urls updates),
       outputPath = override (outputPath job) (outputPath updates),
       status = override (status job) (status updates),
       completed = override (completed job) (completed updates),
       urlStatuses = override (urlStatuses job) (urlStatuses updates),
       successCount = override (successCount job) (successCount updates),
       failCount = override (failCount job) (failCount updates),
       createdAt = override (createdAt job) (createdAt updates) \<rparr>"

section \<open>The job store (class MemStorage)\<close>

text \<open>
  The \<^verbatim>\<open>Map<string, PdfJob>\<close> and the id counter. The user table of the class is not
  touched by any job operation and is left out.
\<close>

record MemStorage =
  pdfJobs :: "string \<rightharpoonup> PdfJob"
  currentId :: nat

text \<open>
  \<^verbatim>\<open>createPdfJob\<close>: \<^verbatim>\<open>{ ...insertJob, id, createdAt: new Date().toISOString() }\<close>.
  The clock reading is the parameter \<open>now\<close>.
\<close>

definition createPdfJob :: "InsertPdfJob \<Rightarrow> string \<Rightarrow> MemStorage \<Rightarrow> PdfJob \<times> MemStorage" where
  "createPdfJob insertJob now st =
     (let job = \<lparr> id_job = Value (currentId st), jobId = Value (i_jobId insertJob),
                  urls = Value (i_urls insertJob),
                  outputPath = Value (i_outputPath insertJob), status = i_status insertJob,
                  completed = i_completed insertJob,
                  urlStatuses = Value (i_urlStatuses insertJob),
                  successCount = Absent, failCount = Absent, createdAt = Value now \<rparr>
      in (job, st\<lparr> pdfJobs := (pdfJobs st)(i_jobId insertJob \<mapsto> job),
                  currentId := currentId st + 1 \<rparr>))"

definition getPdfJob :: "string \<Rightarrow> MemStorage \<Rightarrow> PdfJob option" where
  "getPdfJob jid st = pdfJobs st jid"

definition updatePdfJob :: "string \<Rightarrow> PdfJobPartial \<Rightarrow> MemStorage \<Rightarrow> PdfJob option \<times> MemStorage" where
  "updatePdfJob jid updates st =
     (case pdfJobs st jid of
        None \<Rightarrow> (None, st)
      | Some job \<Rightarrow>
          (let updatedJob = merge job updates
           in (Some updatedJob, st\<lparr> pdfJobs := (pdfJobs st)(jid \<mapsto> updatedJob) \<rparr>)))"

definition deletePdfJob :: "string \<Rightarrow> MemStorage \<Rightarrow> bool \<times> MemStorage" where
  "deletePdfJob jid st =
     (pdfJobs st jid \<noteq> None, st\<lparr> pdfJobs := (pdfJobs st)(jid := None) \<rparr>)"

section \<open>Status helpers (server/pdf-generator.ts)\<close>

text \<open>
  \<^verbatim>\<open>updateJobStatus(jobId, status, error?)\<close>: reads the job and writes
  \<^verbatim>\<open>{ ...job, status, completed: status === "completed" || status === "failed" }\<close>.
  The parameter \<^verbatim>\<open>error\<close> is accepted and never used in the body.
\<close>

definition jobStatusUpdates :: "PdfJob \<Rightarrow> string \<Rightarrow> PdfJobPartial" where
  "jobStatusUpdates job st_name =
     job\<lparr> status := Value st_name,
          completed := Value (st_name = ''completed'' \<or> st_name = ''failed'') \<rparr>"

definition updateJobStatus :: "string \<Rightarrow> string \<Rightarrow> string option \<Rightarrow> MemStorage \<Rightarrow> MemStorage" where
  "updateJobStatus jid st_name err st =
     (case getPdfJob jid st of
        None \<Rightarrow> st
      | Some job \<Rightarrow> snd (updatePdfJob jid (jobStatusUpdates job st_name) st))"

text \<open>
  \<^verbatim>\<open>updateUrlStatus(jobId, urlIndex, status, error?)\<close>: copies the array, replaces
  entry \<^verbatim>\<open>urlIndex\<close> by \<^verbatim>\<open>{ ...old, status, error }\<close> when the index is in range, and
  writes \<^verbatim>\<open>{ ...job, urlStatuses }\<close>. Nothing is written otherwise.
\<close>

definition urlStatusUpdates :: "PdfJob \<Rightarrow> UrlStatus list \<Rightarrow> PdfJobPartial" where
  "urlStatusUpdates job entries = job\<lparr> urlStatuses := Value (StatusArray entries) \<rparr>"

definition updateUrlStatus ::
  "string \<Rightarrow> int \<Rightarrow> UrlState \<Rightarrow> string option \<Rightarrow> MemStorage \<Rightarrow> MemStorage" where
  "updateUrlStatus jid urlIndex s err st =
     (case getPdfJob jid st of
        None \<Rightarrow> st
      | Some job \<Rightarrow>
          (case urlStatuses job of
             Value (StatusArray entries) \<Rightarrow>
               if 0 \<le> urlIndex \<and> urlIndex < int (length entries)
               then snd (updatePdfJob jid
                      (urlStatusUpdates job
                         (entries[nat urlIndex :=
                            (entries ! nat urlIndex)\<lparr> url_status := s, url_error := err \<rparr>]))
                      st)
               else st
           | _ \<Rightarrow> st))"

text \<open>
  The last write of \<^verbatim>\<open>generatePdfs\<close>: reads the job and, when it exists, writes
  \<^verbatim>\<open>{ ...job, status: "completed", completed: true, successCount, failCount, outputPath }\<close>.
\<close>

definition completedUpdates :: "PdfJob \<Rightarrow> int \<Rightarrow> int \<Rightarrow> string \<Rightarrow> PdfJobPartial" where
  "completedUpdates job sc fc dir =
     job\<lparr> status := Value ''completed'', completed := Value True,
          successCount := Value sc, failCount := Value fc, outputPath := Value dir \<rparr>"

definition writeCompleted :: "string \<Rightarrow> int \<Rightarrow> int \<Rightarrow> string \<Rightarrow> MemStorage \<Rightarrow> MemStorage" where
  "writeCompleted jid sc fc dir st =
     (case getPdfJob jid st of
        None \<Rightarrow> st
      | Some job \<Rightarrow> snd (updatePdfJob jid (completedUpdates job sc fc dir) st))"

section \<open>Submission (server/routes.ts, POST /api/pdf/generate)\<close>

text \<open>
  \<^verbatim>\<open>generatePdfSchema\<close>: at least one URL, every one accepted by zod's URL check
  (the parameter \<open>is_url\<close>), and a non-empty output path.
\<close>

definition generatePdfSchema_ok :: "(string \<Rightarrow> bool) \<Rightarrow> string list \<Rightarrow> string \<Rightarrow> bool" where
  "generatePdfSchema_ok is_url us path = (list_all is_url us \<and> us \<noteq> [] \<and> path \<noteq> [])"

definition initialUrlStatuses :: "string list \<Rightarrow> UrlStatus list" where
  "initialUrlStatuses us = map (\<lambda>u. \<lparr> url = u, url_status = Pending, url_error = None \<rparr>) us"

text \<open>
  The handler: validate, draw the job id (\<^verbatim>\<open>randomUUID()\<close>, the parameter \<open>uuid\<close>),
  create the record and answer with the id; a validation failure answers 400 (\<open>Inl\<close>).
  The processing routine is started without being awaited: it runs up to its first
  \<^verbatim>\<open>await\<close> (the directory creation), which writes nothing to the store.
\<close>

definition submit ::
  "(string \<Rightarrow> bool) \<Rightarrow> string \<Rightarrow> string \<Rightarrow> string list \<Rightarrow> string \<Rightarrow> MemStorage
     \<Rightarrow> nat + (string \<times> MemStorage)" where
  "submit is_url uuid now us path st =
     (if \<not> generatePdfSchema_ok is_url us path then Inl 400
      else Inr (uuid,
             snd (createPdfJob
                    \<lparr> i_jobId = uuid, i_urls = us, i_outputPath = path,
                      i_status = Value ''pending'', i_completed = Value False,
                      i_urlStatuses = StatusArray (initialUrlStatuses us) \<rparr> now st)))"

section \<open>The processing routine (generatePdfs)\<close>

text \<open>
  The server state the routine and the cancellation share: the store, the registry
  \<^verbatim>\<open>activeBrowsers\<close> (job id to browser handle), the handles that have been closed, and
  the documents written to disk as (directory, file name).
\<close>

record World =
  storage :: MemStorage
  activeBrowsers :: "string \<rightharpoonup> nat"
  closedBrowsers :: "nat list"
  files :: "(string \<times> string) list"

text \<open>
  What the outside world answers while one URL is handled: whether opening the context
  or the page throws, whether navigation, the waits or the scrolling throw, whether the
  capture throws, whether the file exists afterwards, whether closing the context throws,
  and the clock reading used for the file name.
\<close>

record UrlEnv =
  context_error :: "string option"
  navigate_error :: "string option"
  pdf_error :: "string option"
  file_exists :: bool
  context_close_error :: "string option"
  now_iso :: string

record Env =
  mkdir_error :: "string \<Rightarrow> string option"
  launch_error :: "string option"
  browser_handle :: nat
  url_env :: "nat \<Rightarrow> UrlEnv"
  browser_close_error :: "string option"

text \<open>
  The file name: \<^verbatim>\<open>url.replace(/^https?:\/\//, '').replace(/^www\./, '').split('/')[0]\<close>,
  an underscore, the ISO timestamp with every colon and period replaced by a hyphen,
  and \<^verbatim>\<open>.pdf\<close>.
\<close>

definition stripScheme :: "string \<Rightarrow> string" where
  "stripScheme u =
     (if take 7 u = ''http://'' then drop 7 u
      else if take 8 u = ''https://'' then drop 8 u
      else u)"

definition stripWww :: "string \<Rightarrow> string" where
  "stripWww u = (if take 4 u = ''www.'' then drop 4 u else u)"

definition domainOf :: "string \<Rightarrow> string" where
  "domainOf u = takeWhile (\<lambda>c. c \<noteq> CHR ''/'') (stripWww (stripScheme u))"

definition safeTimestamp :: "string \<Rightarrow> string" where
  "safeTimestamp ts = map (\<lambda>c. if c = CHR '':'' \<or> c = CHR ''.'' then CHR ''-'' else c) ts"

definition outputFilename :: "string \<Rightarrow> string \<Rightarrow> string" where
  "outputFilename u ts = domainOf u @ ''_'' @ safeTimestamp ts @ ''.pdf''"

text \<open>
  The shape of \<^verbatim>\<open>Date.prototype.toISOString()\<close> for years 0 to 9999:
  \<^verbatim>\<open>YYYY-MM-DDTHH:mm:ss.sssZ\<close>, 24 characters.
\<close>

definition isDigit :: "char \<Rightarrow> bool" where
  "isDigit c = (c \<in> set ''0123456789'')"

definition isoShapeAt :: "nat \<Rightarrow> char \<Rightarrow> bool" where
  "isoShapeAt i c =
     (if i = 4 \<or> i = 7 then c = CHR ''-''
      else if i = 10 then c = CHR ''T''
      else if i = 13 \<or> i = 16 then c = CHR '':''
      else if i = 19 then c = CHR ''.''
      else if i = 23 then c = CHR ''Z''
      else isDigit c)"

definition isoShape :: "string \<Rightarrow> bool" where
  "isoShape ts = (length ts = 24 \<and> list_all (\<lambda>i. isoShapeAt i (ts ! i)) [0..<24])"

definition effectiveOutputPath :: "string \<Rightarrow> string" where
  "effectiveOutputPath path =
     (if path = [] \<or> path = ''/Downloads/pdfs'' then ''./generated-pdfs'' else path)"

text \<open>
  The routine never branches on what the store holds: which helper it calls next depends
  only on what the outside world answers. So it is written in two layers. \<open>Action\<close> is
  one call that changes the server state, \<open>perform\<close> is what that call does, and
  \<open>generatePdfs_steps\<close> is the order of the calls, following the \<^verbatim>\<open>try\<close>,
  \<^verbatim>\<open>catch\<close> and \<^verbatim>\<open>finally\<close> blocks of the source.
\<close>

datatype Action =
    JobStatus string "string option"
  | UrlStatusWrite nat UrlState "string option"
  | RegisterBrowser nat
  | CapturePdf string string
  | WriteCompleted int int string
  | ReleaseBrowser nat "string option"

text \<open>
  Closing a browser and dropping it from the registry, inside \<^verbatim>\<open>try\<close>: when
  \<^verbatim>\<open>close()\<close> throws, the \<^verbatim>\<open>delete\<close> after it is skipped and the error is logged.
\<close>

definition closeAndDeregister :: "string \<Rightarrow> nat \<Rightarrow> string option \<Rightarrow> World \<Rightarrow> World" where
  "closeAndDeregister jid b close_err w =
     (case close_err of
        Some _ \<Rightarrow> w
      | None \<Rightarrow> w\<lparr> activeBrowsers := (activeBrowsers w)(jid := None),
                   closedBrowsers := b # closedBrowsers w \<rparr>)"

fun perform :: "string \<Rightarrow> Action \<Rightarrow> World \<Rightarrow> World" where
  "perform jid (JobStatus s err) w = w\<lparr> storage := updateJobStatus jid s err (storage w) \<rparr>"
| "perform jid (UrlStatusWrite i s err) w =
     w\<lparr> storage := updateUrlStatus jid (int i) s err (storage w) \<rparr>"
| "perform jid (RegisterBrowser b) w = w\<lparr> activeBrowsers := (activeBrowsers w)(jid \<mapsto> b) \<rparr>"
| "perform jid (CapturePdf dir f) w = w\<lparr> files := files w @ [(dir, f)] \<rparr>"
| "perform jid (WriteCompleted sc fc dir) w =
     w\<lparr> storage := writeCompleted jid sc fc dir (storage w) \<rparr>"
| "perform jid (ReleaseBrowser b err) w = closeAndDeregister jid b err w"

definition performAll :: "string \<Rightarrow> Action list \<Rightarrow> World \<Rightarrow> World" where
  "performAll jid acts w = foldl (\<lambda>w' a. perform jid a w') w acts"

text \<open>
  One pass of the loop body for URL \<open>i\<close>, after the context and the page were opened:
  the calls made inside \<^verbatim>\<open>try\<close> and \<^verbatim>\<open>catch\<close>, and whether the pass counts as a
  success.
\<close>

definition urlBody :: "UrlEnv \<Rightarrow> string \<Rightarrow> string \<Rightarrow> nat \<Rightarrow> Action list \<times> bool" where
  "urlBody e dir u i =
     (let filename = outputFilename u (now_iso e) in
      case navigate_error e of
        Some msg \<Rightarrow> ([UrlStatusWrite i Processing None, UrlStatusWrite i Failed (Some msg)], False)
      | None \<Rightarrow>
          (case pdf_error e of
             Some msg \<Rightarrow>
               ([UrlStatusWrite i Processing None, UrlStatusWrite i Failed (Some msg)], False)
           | None \<Rightarrow>
               if file_exists e
               then ([UrlStatusWrite i Processing None, CapturePdf dir filename,
                      UrlStatusWrite i Complete None], True)
               else ([UrlStatusWrite i Processing None,
                      UrlStatusWrite i Failed (Some ''PDF file was not created'')], False)))"

text \<open>
  The loop \<^verbatim>\<open>for (let i = 0; i < urls.length; i++)\<close> over the URLs still to do, with
  the two counters. An error thrown outside the inner \<^verbatim>\<open>try\<close> (opening the context
  or the page, or closing the context in \<^verbatim>\<open>finally\<close>) leaves the loop: \<open>Inl\<close>.
\<close>

fun urlLoop ::
  "(nat \<Rightarrow> UrlEnv) \<Rightarrow> string \<Rightarrow> string list \<Rightarrow> nat \<Rightarrow> int \<Rightarrow> int
     \<Rightarrow> Action list \<times> (string + int \<times> int)" where
  "urlLoop ue dir [] i sc fc = ([], Inr (sc, fc))"
| "urlLoop ue dir (u # us) i sc fc =
     (case context_error (ue i) of
        Some msg \<Rightarrow> ([], Inl msg)
      | None \<Rightarrow>
          (let body = urlBody (ue i) dir u i;
               sc' = (if snd body then sc + 1 else sc);
               fc' = (if snd body then fc else fc + 1)
           in case context_close_error (ue i) of
                Some msg \<Rightarrow> (fst body, Inl msg)
              | None \<Rightarrow>
                  (let rest = urlLoop ue dir us (i + 1) sc' fc'
                   in (fst body @ fst rest, snd rest))))"

definition generatePdfs_steps :: "string list \<Rightarrow> string \<Rightarrow> Env \<Rightarrow> Action list" where
  "generatePdfs_steps us path env =
     (let dir = effectiveOutputPath path in
      case mkdir_error env dir of
        Some msg \<Rightarrow> [JobStatus ''failed'' (Some (''Failed to create output directory: '' @ msg))]
      | None \<Rightarrow>
          JobStatus ''processing'' None #
          (case launch_error env of
             Some msg \<Rightarrow> [JobStatus ''failed'' (Some msg)]
           | None \<Rightarrow>
               RegisterBrowser (browser_handle env) #
               (let loop = urlLoop (url_env env) dir us 0 0 0 in
                fst loop @
                (case snd loop of
                   Inl msg \<Rightarrow> [JobStatus ''failed'' (Some msg)]
                 | Inr (sc, fc) \<Rightarrow> [WriteCompleted sc fc dir]) @
                [ReleaseBrowser (browser_handle env) (browser_close_error env)])))"

definition generatePdfs :: "string \<Rightarrow> string list \<Rightarrow> string \<Rightarrow> Env \<Rightarrow> World \<Rightarrow> World" where
  "generatePdfs jid us path env w = performAll jid (generatePdfs_steps us path env) w"

section \<open>Cancellation (cancelJob)\<close>

text \<open>
  \<^verbatim>\<open>cancelJob\<close> reads the job and returns false (\<open>None\<close> here) when there is none
  or it is completed. It then looks up the browser registered for the job and, if there
  is one, awaits \<^verbatim>\<open>browser.close()\<close> and drops it from the registry. Last it writes
  \<^verbatim>\<open>{ ...job, status: "cancelled", completed: true }\<close>, where \<^verbatim>\<open>job\<close> is the
  object read at the start, and returns true.
\<close>

definition cancelJob_read :: "string \<Rightarrow> World \<Rightarrow> PdfJob option" where
  "cancelJob_read jid w =
     (case getPdfJob jid (storage w) of
        None \<Rightarrow> None
      | Some job \<Rightarrow> if completed job = Value True then None else Some job)"

definition cancelJob_close :: "string \<Rightarrow> nat option \<Rightarrow> string option \<Rightarrow> World \<Rightarrow> World" where
  "cancelJob_close jid browser close_err w =
     (case browser of
        None \<Rightarrow> w
      | Some b \<Rightarrow> closeAndDeregister jid b close_err w)"

definition cancelledUpdates :: "PdfJob \<Rightarrow> PdfJobPartial" where
  "cancelledUpdates job = job\<lparr> status := Value ''cancelled'', completed := Value True \<rparr>"

definition cancelJob_write :: "string \<Rightarrow> PdfJob \<Rightarrow> World \<Rightarrow> World" where
  "cancelJob_write jid job w =
     w\<lparr> storage := snd (updatePdfJob jid (cancelledUpdates job) (storage w)) \<rparr>"

text \<open>
  Awaiting \<^verbatim>\<open>browser.close()\<close> suspends \<^verbatim>\<open>cancelJob\<close>, and the processing routine
  of the same job may run in the meantime. \<open>cancelJob_during\<close> is \<^verbatim>\<open>cancelJob\<close> with
  the calls \<open>acts\<close> of the routine taking place during that wait: after the job was read
  and the browser looked up, before the registry entry is dropped and the job is written.
  \<open>cancelJob\<close> itself is the run in which nothing happens in between.
\<close>

definition cancelJob_during ::
  "string \<Rightarrow> string option \<Rightarrow> Action list \<Rightarrow> World \<Rightarrow> bool \<times> World" where
  "cancelJob_during jid close_err acts w =
     (case cancelJob_read jid w of
        None \<Rightarrow> (False, w)
      | Some job \<Rightarrow>
          (let browser = activeBrowsers w jid;
               w' = performAll jid acts w
           in (True, cancelJob_write jid job (cancelJob_close jid browser close_err w'))))"

definition cancelJob :: "string \<Rightarrow> string option \<Rightarrow> World \<Rightarrow> bool \<times> World" where
  "cancelJob jid close_err w = cancelJob_during jid close_err [] w"

section \<open>Records the program can write\<close>

text \<open>
  Every write to a job goes through \<^verbatim>\<open>updatePdfJob\<close> with one of four field sets, each
  built from an object \<open>snap\<close> read from the store earlier and merged into the object
  \<open>cur\<close> the store holds at the time of the write. Between the read and the write the
  function may have been suspended, so \<open>snap\<close> and \<open>cur\<close> can differ.
\<close>

inductive writable :: "PdfJob \<Rightarrow> bool" where
  created:
    "submit is_url uuid now us path st = Inr (uuid, st') \<Longrightarrow> pdfJobs st' uuid = Some job
       \<Longrightarrow> writable job"
| processing:
    "writable cur \<Longrightarrow> writable snap \<Longrightarrow> writable (merge cur (jobStatusUpdates snap ''processing''))"
| failed:
    "writable cur \<Longrightarrow> writable snap \<Longrightarrow> writable (merge cur (jobStatusUpdates snap ''failed''))"
| url_status:
    "writable cur \<Longrightarrow> writable snap \<Longrightarrow> urlStatuses snap = Value (StatusArray entries)
       \<Longrightarrow> 0 \<le> urlIndex \<Longrightarrow> urlIndex < int (length entries)
       \<Longrightarrow> writable (merge cur (urlStatusUpdates snap
             (entries[nat urlIndex :=
                (entries ! nat urlIndex)\<lparr> url_status := s, url_error := err \<rparr>])))"
| completed:
    "writable cur \<Longrightarrow> writable snap \<Longrightarrow> writable (merge cur (completedUpdates snap sc fc dir))"
| cancelled:
    "writable cur \<Longrightarrow> writable snap \<Longrightarrow> writable (merge cur (cancelledUpdates snap))"

text \<open>What a poller sees of a job: the per-URL states, in order.\<close>

definition urlStatesOf :: "string \<Rightarrow> MemStorage \<Rightarrow> UrlState list option" where
  "urlStatesOf jid st =
     (case pdfJobs st jid of
        None \<Rightarrow> None
      | Some job \<Rightarrow>
          (case urlStatuses job of
             Value (StatusArray entries) \<Rightarrow> Some (map url_status entries)
           | _ \<Rightarrow> None))"

text \<open>
  The order of the per-URL states: an entry may stay as it is, go from \<^verbatim>\<open>pending\<close>
  to \<^verbatim>\<open>processing\<close>, or from \<^verbatim>\<open>processing\<close> to \<^verbatim>\<open>complete\<close> or \<^verbatim>\<open>failed\<close>.
  \<open>statesForward\<close> compares what a poller sees of a job in two server states, and
  \<open>forwardRun\<close> says that every call of a run respects the order.
\<close>

definition forwardStep :: "UrlState \<Rightarrow> UrlState \<Rightarrow> bool" where
  "forwardStep a b =
     (a = b \<or> (a = Pending \<and> b = Processing) \<or>
      (a = Processing \<and> (b = Complete \<or> b = Failed)))"

definition statesForward :: "string \<Rightarrow> World \<Rightarrow> World \<Rightarrow> bool" where
  "statesForward jid w w' =
     (case urlStatesOf jid (storage w) of
        None \<Rightarrow> urlStatesOf jid (storage w') = None
      | Some before \<Rightarrow>
          (case urlStatesOf jid (storage w') of
             None \<Rightarrow> False
           | Some after \<Rightarrow> list_all2 forwardStep before after))"

fun forwardRun :: "string \<Rightarrow> Action list \<Rightarrow> World \<Rightarrow> bool" where
  "forwardRun jid [] w = True"
| "forwardRun jid (a # acts) w =
     (statesForward jid w (perform jid a w) \<and> forwardRun jid acts (perform jid a w))"

text \<open>How many entries of a job's \<^verbatim>\<open>urlStatuses\<close> are in a given state.\<close>

definition countState :: "UrlState \<Rightarrow> PdfJob \<Rightarrow> int" where
  "countState s job =
     (case urlStatuses job of
        Value (StatusArray entries) \<Rightarrow> int (length (filter (\<lambda>e. url_status e = s) entries))
      | _ \<Rightarrow> 0)"

definition jobStatusOf :: "string \<Rightarrow> MemStorage \<Rightarrow> string slot" where
  "jobStatusOf jid st = (case pdfJobs st jid of None \<Rightarrow> Absent | Some job \<Rightarrow> status job)"

definition terminalStatus :: "string slot \<Rightarrow> bool" where
  "terminalStatus s =
     (s = Value ''completed'' \<or> s = Value ''failed'' \<or> s = Value ''cancelled'')"

section \<open>Example data\<close>

definition emptyStorage :: MemStorage where
  "emptyStorage = \<lparr> pdfJobs = Map.empty, currentId = 1 \<rparr>"

definition emptyWorld :: World where
  "emptyWorld = \<lparr> storage = emptyStorage, activeBrowsers = Map.empty, closedBrowsers = [],
                  files = [] \<rparr>"

definition anyUrl :: "string \<Rightarrow> bool" where
  "anyUrl u = True"

definition urls1 :: "string list" where
  "urls1 = [''https://a.example/x'', ''https://www.a.example/y'']"

definition job1 :: PdfJob where
  "job1 =
     \<lparr> id_job = Value 1, jobId = Value ''job-1'',
       urls = Value urls1,
       outputPath = Value ''/tmp/out'', status = Value ''pending'', completed = Value False,
       urlStatuses = Value (StatusArray
         [\<lparr> url = ''https://a.example/x'', url_status = Pending, url_error = None \<rparr>,
          \<lparr> url = ''https://www.a.example/y'', url_status = Pending, url_error = None \<rparr>]),
       successCount = Absent, failCount = Absent,
       createdAt = Value ''2024-01-01T00:00:00.000Z'' \<rparr>"

definition storage1 :: MemStorage where
  "storage1 = \<lparr> pdfJobs = [''job-1'' \<mapsto> job1], currentId = 2 \<rparr>"

definition world1 :: World where
  "world1 = emptyWorld\<lparr> storage := storage1 \<rparr>"

definition urlOk :: "string \<Rightarrow> UrlEnv" where
  "urlOk ts =
     \<lparr> context_error = None, navigate_error = None, pdf_error = None, file_exists = True,
       context_close_error = None, now_iso = ts \<rparr>"

definition envOk :: "(nat \<Rightarrow> UrlEnv) \<Rightarrow> Env" where
  "envOk ue =
     \<lparr> mkdir_error = (\<lambda>dir. None), launch_error = None, browser_handle = 7, url_env = ue,
       browser_close_error = None \<rparr>"

definition envMkdirFails :: "string \<Rightarrow> Env" where
  "envMkdirFails msg =
     (envOk (\<lambda>i. urlOk ''2024-01-01T00:00:00.000Z''))\<lparr> mkdir_error := (\<lambda>dir. Some msg) \<rparr>"

text \<open>
  The first URL is captured; the session is gone while the second, the last, is in
  flight, so its navigation throws. \<open>worldLastInFlight\<close> is the routine of job 1 stopped
  after its sixth call, with the second URL marked \<^verbatim>\<open>processing\<close>. In
  \<open>worldLostUpdate\<close> a cancellation starts there, the routine's seventh call (the
  \<^verbatim>\<open>failed\<close> write of its \<^verbatim>\<open>catch\<close> block) happens while the browser closes,
  and the routine then runs to its end.
\<close>

definition envLastAborted :: Env where
  "envLastAborted =
     envOk (\<lambda>i. if i = 0 then urlOk ''2024-01-01T00:00:01.000Z''
                 else (urlOk ''2024-01-01T00:00:09.000Z'')
                        \<lparr> navigate_error := Some ''Target closed'' \<rparr>)"

definition worldLastInFlight :: World where
  "worldLastInFlight =
     performAll ''job-1'' (take 6 (generatePdfs_steps urls1 ''/tmp/out'' envLastAborted)) world1"

definition worldLostUpdate :: World where
  "worldLostUpdate =
     performAll ''job-1'' (drop 7 (generatePdfs_steps urls1 ''/tmp/out'' envLastAborted))
       (snd (cancelJob_during ''job-1'' None
               [generatePdfs_steps urls1 ''/tmp/out'' envLastAborted ! 6] worldLastInFlight))"

text \<open>
  The session is gone while the first URL is in flight: its navigation throws, and the
  next pass cannot open a context.
\<close>

definition envSessionClosed :: Env where
  "envSessionClosed =
     envOk (\<lambda>i. if i = 0
                 then (urlOk ''2024-01-01T00:00:01.000Z'')\<lparr> navigate_error := Some ''Target closed'' \<rparr>
                 else (urlOk ''2024-01-01T00:00:02.000Z'')\<lparr> context_error := Some ''Browser closed'' \<rparr>)"

text \<open>
  The routine of job 1 under \<open>envSessionClosed\<close>, stopped after its third call: the job
  is \<^verbatim>\<open>processing\<close>, the browser is registered and the first URL is in flight.
\<close>

definition worldInFlight :: World where
  "worldInFlight =
     performAll ''job-1'' (take 3 (generatePdfs_steps urls1 ''/tmp/out'' envSessionClosed))
       world1"

section \<open>Store properties\<close>

lemma override_same: "override x x = x"
  by (cases x) (simp_all add: override_def)

lemma override_Value: "override x (Value v) = Value v"
  by (simp add: override_def)

lemma override_cases: "override old new = (if new = Absent then old else new)"
  by (cases new) (simp_all add: override_def)

lemma merge_self: "merge job job = job"
  by (simp add: merge_def override_same)

lemma merge_url_updates:
  "merge job (urlStatusUpdates job es) = job\<lparr> urlStatuses := Value (StatusArray es) \<rparr>"
  by (simp add: merge_def urlStatusUpdates_def override_same override_Value)

lemma merge_job_status:
  "merge job (jobStatusUpdates job s) =
     job\<lparr> status := Value s, completed := Value (s = ''completed'' \<or> s = ''failed'') \<rparr>"
  by (simp add: merge_def jobStatusUpdates_def override_same override_Value)

lemma merge_cancelled:
  "merge job (cancelledUpdates job) = job\<lparr> status := Value ''cancelled'', completed := Value True \<rparr>"
  by (simp add: merge_def cancelledUpdates_def override_same override_Value)

lemma merge_completed:
  "merge job (completedUpdates job sc fc dir) =
     job\<lparr> status := Value ''completed'', completed := Value True, successCount := Value sc,
          failCount := Value fc, outputPath := Value dir \<rparr>"
  by (simp add: merge_def completedUpdates_def override_same override_Value)

lemma submit_example:
  "submit anyUrl ''job-1'' ''2024-01-01T00:00:00.000Z''
     [''https://a.example/x'', ''https://www.a.example/y''] ''/tmp/out'' emptyStorage
   = Inr (''job-1'', storage1)"
  by (simp add: submit_def generatePdfSchema_ok_def anyUrl_def createPdfJob_def
      initialUrlStatuses_def emptyStorage_def storage1_def job1_def urls1_def Let_def)

text \<open>
  C9. The store's update returns absent and leaves the store unchanged for an unknown
  job id. For a known one it stores and returns the merged record: a key the field set
  has holds what the field set holds for it, a value or \<^verbatim>\<open>undefined\<close>, and a key the
  field set does not have holds what the stored record held. This is so for every
  field set, whatever the state of each of its ten keys.
\<close>

theorem updatePdfJob_merge_semantics:
  "(pdfJobs st jid = None \<longrightarrow> updatePdfJob jid updates st = (None, st)) \<and>
   (\<forall>job. pdfJobs st jid = Some job \<longrightarrow>
      (let j' = merge job updates in
        updatePdfJob jid updates st = (Some j', st\<lparr> pdfJobs := (pdfJobs st)(jid \<mapsto> j') \<rparr>) \<and>
        id_job j' = (if id_job updates = Absent then id_job job else id_job updates) \<and>
        jobId j' = (if jobId updates = Absent then jobId job else jobId updates) \<and>
        urls j' = (if urls updates = Absent then urls job else urls updates) \<and>
        outputPath j' =
          (if outputPath updates = Absent then outputPath job else outputPath updates) \<and>
        status j' = (if status updates = Absent then status job else status updates) \<and>
        completed j' =
          (if completed updates = Absent then completed job else completed updates) \<and>
        urlStatuses j' =
          (if urlStatuses updates = Absent then urlStatuses job else urlStatuses updates) \<and>
        successCount j' =
          (if successCount updates = Absent then successCount job else successCount updates) \<and>
        failCount j' =
          (if failCount updates = Absent then failCount job else failCount updates) \<and>
        createdAt j' =
          (if createdAt updates = Absent then createdAt job else createdAt updates)))"
  by (simp add: updatePdfJob_def merge_def override_cases Let_def)

text \<open>
  At an unknown id; and on job 1 with the field set
  \<^verbatim>\<open>{ status: undefined, outputPath: "/x", successCount: 0 }\<close>, which leaves the
  stored status \<^verbatim>\<open>undefined\<close>.
\<close>

theorem updatePdfJob_merge_semantics_witness:
  "updatePdfJob ''job-9'' (job1\<lparr> urls := Absent, status := Value ''processing'' \<rparr>) storage1
     = (None, storage1) \<and>
   fst (updatePdfJob ''job-1''
          \<lparr> id_job = Absent, jobId = Absent, urls = Absent, outputPath = Value ''/x'',
            status = Undefined, completed = Absent, urlStatuses = Absent,
            successCount = Value 0, failCount = Absent, createdAt = Absent \<rparr> storage1)
     = Some (job1\<lparr> outputPath := Value ''/x'', status := Undefined, successCount := Value 0 \<rparr>)"
  using updatePdfJob_merge_semantics [of storage1 "''job-9''"
          "job1\<lparr> urls := Absent, status := Value ''processing'' \<rparr>"]
        updatePdfJob_merge_semantics [of storage1 "''job-1''"
          "\<lparr> id_job = Absent, jobId = Absent, urls = Absent, outputPath = Value ''/x'',
            status = Undefined, completed = Absent, urlStatuses = Absent,
            successCount = Value 0, failCount = Absent, createdAt = Absent \<rparr>"]
  by (simp add: storage1_def Let_def)

text \<open>
  C10. The per-URL helper writes nothing when the job id is unknown, when the stored
  \<^verbatim>\<open>urlStatuses\<close> is not an array, or when the index is negative or not below the
  array length; the function has no failing branch. When it writes, the stored job
  differs from the old one only in entry \<open>i\<close> of \<^verbatim>\<open>urlStatuses\<close>, which keeps its
  URL and takes the given status and error; every other entry and field is the old one.
\<close>

theorem updateUrlStatus_safe:
  "(pdfJobs st jid = None \<longrightarrow> updateUrlStatus jid i s err st = st) \<and>
   (\<forall>job. pdfJobs st jid = Some job \<and> (\<forall>es. urlStatuses job \<noteq> Value (StatusArray es)) \<longrightarrow>
      updateUrlStatus jid i s err st = st) \<and>
   (\<forall>job es. pdfJobs st jid = Some job \<and> urlStatuses job = Value (StatusArray es) \<and>
        (i < 0 \<or> int (length es) \<le> i) \<longrightarrow>
      updateUrlStatus jid i s err st = st) \<and>
   (\<forall>job es. pdfJobs st jid = Some job \<and> urlStatuses job = Value (StatusArray es) \<and>
        0 \<le> i \<and> i < int (length es) \<longrightarrow>
      (let es' = es[nat i := (es ! nat i)\<lparr> url_status := s, url_error := err \<rparr>] in
       updateUrlStatus jid i s err st =
         st\<lparr> pdfJobs := (pdfJobs st)(jid \<mapsto> job\<lparr> urlStatuses := Value (StatusArray es') \<rparr>) \<rparr> \<and>
       length es' = length es \<and>
       url (es' ! nat i) = url (es ! nat i) \<and>
       url_status (es' ! nat i) = s \<and> url_error (es' ! nat i) = err \<and>
       (\<forall>k < length es. k \<noteq> nat i \<longrightarrow> es' ! k = es ! k)))"
  by (auto simp add: updateUrlStatus_def getPdfJob_def updatePdfJob_def merge_url_updates Let_def
      split: slot.splits UrlStatusesJson.splits)

theorem updateUrlStatus_safe_witness:
  "updateUrlStatus ''job-9'' 0 Failed (Some ''boom'') storage1 = storage1 \<and>
   updateUrlStatus ''job-1'' 0 Failed (Some ''boom'')
     (storage1\<lparr> pdfJobs := [''job-1'' \<mapsto> job1\<lparr> urlStatuses := Value (NonArray ''{}'') \<rparr>] \<rparr>)
     = storage1\<lparr> pdfJobs := [''job-1'' \<mapsto> job1\<lparr> urlStatuses := Value (NonArray ''{}'') \<rparr>] \<rparr> \<and>
   updateUrlStatus ''job-1'' 2 Failed (Some ''boom'') storage1 = storage1 \<and>
   updateUrlStatus ''job-1'' (- 1) Failed (Some ''boom'') storage1 = storage1 \<and>
   pdfJobs (updateUrlStatus ''job-1'' 1 Failed (Some ''boom'') storage1) ''job-1'' =
     Some (job1\<lparr> urlStatuses := Value (StatusArray
       [\<lparr> url = ''https://a.example/x'', url_status = Pending, url_error = None \<rparr>,
        \<lparr> url = ''https://www.a.example/y'', url_status = Failed, url_error = Some ''boom'' \<rparr>]) \<rparr>)"
  using updateUrlStatus_safe [of storage1 "''job-9''" 0 Failed "Some ''boom''"]
        updateUrlStatus_safe [of "storage1\<lparr> pdfJobs := [''job-1'' \<mapsto> job1\<lparr> urlStatuses := Value (NonArray ''{}'') \<rparr>] \<rparr>"
           "''job-1''" 0 Failed "Some ''boom''"]
        updateUrlStatus_safe [of storage1 "''job-1''" 2 Failed "Some ''boom''"]
        updateUrlStatus_safe [of storage1 "''job-1''" "- 1" Failed "Some ''boom''"]
        updateUrlStatus_safe [of storage1 "''job-1''" 1 Failed "Some ''boom''"]
  by (simp add: storage1_def job1_def Let_def)

section \<open>Cancellation refused\<close>

text \<open>
  C4. For a job id the store does not know, and for a job whose record has
  \<^verbatim>\<open>completed == true\<close>, \<^verbatim>\<open>cancelJob\<close> returns false and changes nothing: not the
  job record, not the rest of the store, not the browser registry.
\<close>

theorem cancelJob_refused:
  "pdfJobs (storage w) jid = None \<or>
     (\<exists>job. pdfJobs (storage w) jid = Some job \<and> completed job = Value True)
   \<Longrightarrow> cancelJob jid close_err w = (False, w)"
  by (auto simp add: cancelJob_def cancelJob_during_def cancelJob_read_def getPdfJob_def)

theorem cancelJob_refused_witness:
  "cancelJob ''job-9'' None world1 = (False, world1) \<and>
   cancelJob ''job-1'' None
     (world1\<lparr> storage := storage1\<lparr> pdfJobs := [''job-1'' \<mapsto>
         job1\<lparr> status := Value ''completed'', completed := Value True \<rparr>] \<rparr>,
        activeBrowsers := [''job-1'' \<mapsto> 7] \<rparr>)
   = (False, world1\<lparr> storage := storage1\<lparr> pdfJobs := [''job-1'' \<mapsto>
         job1\<lparr> status := Value ''completed'', completed := Value True \<rparr>] \<rparr>,
        activeBrowsers := [''job-1'' \<mapsto> 7] \<rparr>)"
  using cancelJob_refused [of world1 "''job-9''" None]
        cancelJob_refused [of "world1\<lparr> storage := storage1\<lparr> pdfJobs := [''job-1'' \<mapsto>
         job1\<lparr> status := Value ''completed'', completed := Value True \<rparr>] \<rparr>,
        activeBrowsers := [''job-1'' \<mapsto> 7] \<rparr>" "''job-1''" None]
  by (simp add: world1_def storage1_def emptyWorld_def)

section \<open>Submission\<close>

lemma submit_creates_job:
  "submit is_url uuid now us path st = Inr (jid, st') \<Longrightarrow>
     jid = uuid \<and>
     pdfJobs st' uuid =
       Some \<lparr> id_job = Value (currentId st), jobId = Value uuid, urls = Value us,
              outputPath = Value path,
              status = Value ''pending'', completed = Value False,
              urlStatuses = Value (StatusArray (initialUrlStatuses us)),
              successCount = Absent, failCount = Absent, createdAt = Value now \<rparr>"
  by (auto simp add: submit_def createPdfJob_def Let_def split: if_splits)

text \<open>
  C6. Right after submission the stored record has status \<^verbatim>\<open>pending\<close>,
  \<^verbatim>\<open>completed\<close> false and one \<^verbatim>\<open>pending\<close> entry per input URL, in order. The two
  counters are not zero: \<^verbatim>\<open>createPdfJob\<close> copies the six inserted fields and adds the id
  and the creation time, so \<^verbatim>\<open>successCount\<close> and \<^verbatim>\<open>failCount\<close> are absent from the
  stored object, although the table declares both not null with default 0.
\<close>

theorem submit_leaves_counts_absent:
  "submit anyUrl ''job-1'' ''2024-01-01T00:00:00.000Z''
     [''https://a.example/x'', ''https://www.a.example/y''] ''/tmp/out'' emptyStorage
     = Inr (''job-1'', storage1) \<and>
   map_option status (pdfJobs storage1 ''job-1'') = Some (Value ''pending'') \<and>
   map_option completed (pdfJobs storage1 ''job-1'') = Some (Value False) \<and>
   map_option urlStatuses (pdfJobs storage1 ''job-1'') =
     Some (Value (StatusArray
       [\<lparr> url = ''https://a.example/x'', url_status = Pending, url_error = None \<rparr>,
        \<lparr> url = ''https://www.a.example/y'', url_status = Pending, url_error = None \<rparr>])) \<and>
   map_option successCount (pdfJobs storage1 ''job-1'') = Some Absent \<and>
   map_option failCount (pdfJobs storage1 ''job-1'') = Some Absent \<and>
   map_option successCount (pdfJobs storage1 ''job-1'') \<noteq> Some (Value 0) \<and>
   map_option failCount (pdfJobs storage1 ''job-1'') \<noteq> Some (Value 0)"
  by (simp add: submit_example) (simp add: storage1_def job1_def urls1_def)

section \<open>The completed flag\<close>

lemma writable_flags:
  "writable job \<Longrightarrow>
     status job \<noteq> Absent \<and> completed job \<noteq> Absent \<and>
     (completed job = Value True \<longleftrightarrow> terminalStatus (status job))"
proof (induction rule: writable.induct)
  case (created is_url uuid now us path st st' job)
  from submit_creates_job [OF created(1)] created(2)
  show ?case by (auto simp add: terminalStatus_def)
next
  case (processing cur snap)
  then show ?case
    by (simp add: merge_def jobStatusUpdates_def override_cases terminalStatus_def)
next
  case (failed cur snap)
  then show ?case
    by (simp add: merge_def jobStatusUpdates_def override_cases terminalStatus_def)
next
  case (url_status cur snap entries urlIndex s err)
  then show ?case
    by (auto simp add: merge_def urlStatusUpdates_def override_cases)
next
  case (completed cur snap sc fc dir)
  then show ?case
    by (simp add: merge_def completedUpdates_def override_cases terminalStatus_def)
next
  case (cancelled cur snap)
  then show ?case
    by (simp add: merge_def cancelledUpdates_def override_cases terminalStatus_def)
qed

text \<open>
  C7. In every job record the program can write (the record created on submission, and
  any record obtained from written ones by the transitions to \<^verbatim>\<open>processing\<close>,
  \<^verbatim>\<open>failed\<close> and \<^verbatim>\<open>completed\<close>, a per-URL update or a cancellation, also when the
  object written back was read before other writes happened), \<^verbatim>\<open>completed\<close> is true
  exactly when the status is \<^verbatim>\<open>completed\<close>, \<^verbatim>\<open>failed\<close> or \<^verbatim>\<open>cancelled\<close>.
\<close>

theorem completed_iff_terminal:
  "writable job \<Longrightarrow>
     (completed job = Value True) =
     (status job = Value ''completed'' \<or> status job = Value ''failed'' \<or>
      status job = Value ''cancelled'')"
  using writable_flags [of job] by (simp add: terminalStatus_def)

lemma writable_job1: "writable job1"
  by (rule writable.created [OF submit_example]) (simp add: storage1_def)

theorem completed_iff_terminal_witness:
  "writable (merge job1 (cancelledUpdates job1)) \<and>
   completed (merge job1 (cancelledUpdates job1)) = Value True \<and>
   status (merge job1 (cancelledUpdates job1)) = Value ''cancelled'' \<and>
   writable (merge job1 (jobStatusUpdates job1 ''processing'')) \<and>
   completed (merge job1 (jobStatusUpdates job1 ''processing'')) = Value False \<and>
   status (merge job1 (jobStatusUpdates job1 ''processing'')) = Value ''processing''"
proof -
  have c: "writable (merge job1 (cancelledUpdates job1))"
    by (rule writable.cancelled [OF writable_job1 writable_job1])
  have p: "writable (merge job1 (jobStatusUpdates job1 ''processing''))"
    by (rule writable.processing [OF writable_job1 writable_job1])
  from completed_iff_terminal [OF c] completed_iff_terminal [OF p] c p
  show ?thesis by (simp add: merge_cancelled merge_job_status)
qed

section \<open>Calls of the routine\<close>

lemma updateJobStatus_known:
  "pdfJobs st jid = Some job \<Longrightarrow>
     updateJobStatus jid s err st =
       st\<lparr> pdfJobs := (pdfJobs st)(jid \<mapsto>
            job\<lparr> status := Value s, completed := Value (s = ''completed'' \<or> s = ''failed'') \<rparr>) \<rparr>"
  by (simp add: updateJobStatus_def getPdfJob_def updatePdfJob_def merge_job_status Let_def)

lemma updateJobStatus_unknown:
  "pdfJobs st jid = None \<Longrightarrow> updateJobStatus jid s err st = st"
  by (simp add: updateJobStatus_def getPdfJob_def)

lemma performAll_Nil: "performAll jid [] w = w"
  by (simp add: performAll_def)

lemma performAll_Cons: "performAll jid (a # acts) w = performAll jid acts (perform jid a w)"
  by (simp add: performAll_def)

lemma performAll_append:
  "performAll jid (xs @ ys) w = performAll jid ys (performAll jid xs w)"
  by (simp add: performAll_def)

lemma perform_job_status:
  "pdfJobs (storage w) jid = Some job \<Longrightarrow>
     pdfJobs (storage (perform jid (JobStatus s err) w)) jid =
       Some (job\<lparr> status := Value s, completed := Value (s = ''completed'' \<or> s = ''failed'') \<rparr>)"
  by (simp add: updateJobStatus_known)

lemma perform_write_completed:
  "pdfJobs (storage w) jid = Some job \<Longrightarrow>
     pdfJobs (storage (perform jid (WriteCompleted sc fc dir) w)) jid =
       Some (job\<lparr> status := Value ''completed'', completed := Value True,
                  successCount := Value sc, failCount := Value fc, outputPath := Value dir \<rparr>)"
  by (simp add: writeCompleted_def getPdfJob_def updatePdfJob_def merge_completed Let_def)

lemma perform_keeps_job:
  "pdfJobs (storage w) jid \<noteq> None \<Longrightarrow> pdfJobs (storage (perform jid a w)) jid \<noteq> None"
  by (cases a)
    (auto simp add: updateJobStatus_def updateUrlStatus_def writeCompleted_def getPdfJob_def
      updatePdfJob_def closeAndDeregister_def Let_def
      split: option.splits slot.splits UrlStatusesJson.splits)

lemma performAll_keeps_job:
  "pdfJobs (storage w) jid \<noteq> None \<Longrightarrow> pdfJobs (storage (performAll jid acts w)) jid \<noteq> None"
proof (induction acts arbitrary: w)
  case Nil
  then show ?case by (simp add: performAll_Nil)
next
  case (Cons a acts)
  from Cons.IH [OF perform_keeps_job [OF Cons.prems]] show ?case
    by (simp add: performAll_Cons)
qed

lemma perform_release_storage: "storage (perform jid (ReleaseBrowser b err) w) = storage w"
  by (simp add: closeAndDeregister_def split: option.splits)

section \<open>Failure to create the output directory\<close>

lemma effectiveOutputPath_cases:
  "effectiveOutputPath [] = ''./generated-pdfs'' \<and>
   effectiveOutputPath ''/Downloads/pdfs'' = ''./generated-pdfs'' \<and>
   (path \<noteq> [] \<and> path \<noteq> ''/Downloads/pdfs'' \<longrightarrow> effectiveOutputPath path = path)"
  by (simp add: effectiveOutputPath_def)

lemma generatePdfs_mkdir_failure:
  "mkdir_error env (effectiveOutputPath path) = Some msg \<Longrightarrow>
     generatePdfs_steps us path env =
       [JobStatus ''failed'' (Some (''Failed to create output directory: '' @ msg))] \<and>
     generatePdfs jid us path env w =
       w\<lparr> storage := updateJobStatus jid ''failed''
              (Some (''Failed to create output directory: '' @ msg)) (storage w) \<rparr>"
  by (simp add: generatePdfs_def generatePdfs_steps_def performAll_def Let_def)

text \<open>
  C5. With an output directory that cannot be created, the routine makes one call,
  \<^verbatim>\<open>updateJobStatus(jobId, "failed", message)\<close>, and returns: the job becomes
  \<^verbatim>\<open>failed\<close> with \<^verbatim>\<open>completed\<close> true, no URL is touched and every entry stays
  \<^verbatim>\<open>pending\<close>. The message is not attached: \<^verbatim>\<open>updateJobStatus\<close> never uses its
  \<^verbatim>\<open>error\<close> parameter, so the stored record is the old one with the two fields changed
  and is the same record whatever the message was.
\<close>

theorem mkdir_failure_drops_message:
  "generatePdfs ''job-1'' urls1 ''/proc/out'' (envMkdirFails ''EACCES: permission denied'') world1
     = world1\<lparr> storage := storage1\<lparr> pdfJobs := [''job-1'' \<mapsto>
                  job1\<lparr> status := Value ''failed'', completed := Value True \<rparr>] \<rparr> \<rparr> \<and>
   generatePdfs ''job-1'' urls1 ''/proc/out'' (envMkdirFails ''ENOSPC: no space left'') world1
     = generatePdfs ''job-1'' urls1 ''/proc/out''
         (envMkdirFails ''EACCES: permission denied'') world1 \<and>
   urlStatesOf ''job-1''
     (storage (generatePdfs ''job-1'' urls1 ''/proc/out''
         (envMkdirFails ''EACCES: permission denied'') world1))
     = Some [Pending, Pending]"
proof -
  have m: "\<And>msg. mkdir_error (envMkdirFails msg) (effectiveOutputPath ''/proc/out'') = Some msg"
    by (simp add: envMkdirFails_def envOk_def)
  have j: "pdfJobs (storage world1) ''job-1'' = Some job1"
    by (simp add: world1_def storage1_def emptyWorld_def)
  have g: "\<And>msg. generatePdfs ''job-1'' urls1 ''/proc/out'' (envMkdirFails msg) world1
     = world1\<lparr> storage := storage1\<lparr> pdfJobs := [''job-1'' \<mapsto>
                  job1\<lparr> status := Value ''failed'', completed := Value True \<rparr>] \<rparr> \<rparr>"
    using j by (simp add: generatePdfs_mkdir_failure [OF m] updateJobStatus_known [OF j])
      (simp add: world1_def storage1_def emptyWorld_def)
  show ?thesis
    by (simp add: g) (simp add: urlStatesOf_def job1_def)
qed

section \<open>Cancelling an active job\<close>

lemma steps_session_closed:
  "generatePdfs_steps urls1 ''/tmp/out'' envSessionClosed =
     [JobStatus ''processing'' None, RegisterBrowser 7, UrlStatusWrite 0 Processing None,
      UrlStatusWrite 0 Failed (Some ''Target closed''),
      JobStatus ''failed'' (Some ''Browser closed''), ReleaseBrowser 7 None]"
  by code_simp








section \<open>The URL loop and the final counters\<close>

lemma updateUrlStatus_at:
  "pdfJobs st jid = Some job \<Longrightarrow> urlStatuses job = Value (StatusArray (done @ e # todo)) \<Longrightarrow>
     updateUrlStatus jid (int (length done)) s err st =
       st\<lparr> pdfJobs := (pdfJobs st)(jid \<mapsto>
            job\<lparr> urlStatuses :=
                  Value (StatusArray (done @ e\<lparr> url_status := s, url_error := err \<rparr> # todo)) \<rparr>) \<rparr>"
  by (simp add: updateUrlStatus_def getPdfJob_def updatePdfJob_def merge_url_updates Let_def)

lemma perform_url_write:
  "pdfJobs (storage w) jid = Some job \<Longrightarrow> urlStatuses job = Value (StatusArray (done @ e # todo)) \<Longrightarrow>
     pdfJobs (storage (perform jid (UrlStatusWrite (length done) s err) w)) jid =
       Some (job\<lparr> urlStatuses :=
                  Value (StatusArray (done @ e\<lparr> url_status := s, url_error := err \<rparr> # todo)) \<rparr>)"
  by (simp add: updateUrlStatus_at)

lemma perform_capture_storage: "storage (perform jid (CapturePdf dir f) w) = storage w"
  by simp

text \<open>
  One pass of the loop body rewrites exactly the entry of its URL, which ends
  \<^verbatim>\<open>complete\<close> when the pass counts as a success and \<^verbatim>\<open>failed\<close> otherwise.
\<close>

lemma urlBody_effect:
  assumes "pdfJobs (storage w) jid = Some job"
    and "urlStatuses job = Value (StatusArray (done @ e # todo))"
  shows "\<exists>e'. pdfJobs (storage (performAll jid (fst (urlBody env dir u (length done)) ) w)) jid =
            Some (job\<lparr> urlStatuses := Value (StatusArray (done @ e' # todo)) \<rparr>) \<and>
          url_status e' = (if snd (urlBody env dir u (length done)) then Complete else Failed)"
proof -
  let ?w1 = "perform jid (UrlStatusWrite (length done) Processing None) w"
  let ?e1 = "e\<lparr> url_status := Processing, url_error := None \<rparr>"
  let ?job1 = "job\<lparr> urlStatuses := Value (StatusArray (done @ ?e1 # todo)) \<rparr>"
  have j1: "pdfJobs (storage ?w1) jid = Some ?job1"
    using perform_url_write [OF assms] .
  have u1: "urlStatuses ?job1 = Value (StatusArray (done @ ?e1 # todo))"
    by simp
  have fin: "\<And>s err. pdfJobs (storage (perform jid (UrlStatusWrite (length done) s err) ?w1)) jid =
      Some (job\<lparr> urlStatuses :=
          Value (StatusArray (done @ ?e1\<lparr> url_status := s, url_error := err \<rparr> # todo)) \<rparr>)"
    using perform_url_write [OF j1 u1] by simp
  let ?w2 = "perform jid (CapturePdf dir (outputFilename u (now_iso env))) ?w1"
  have j2: "pdfJobs (storage ?w2) jid = Some ?job1"
    using j1 by simp
  have fin2: "\<And>s err. pdfJobs (storage (perform jid (UrlStatusWrite (length done) s err) ?w2)) jid =
      Some (job\<lparr> urlStatuses :=
          Value (StatusArray (done @ ?e1\<lparr> url_status := s, url_error := err \<rparr> # todo)) \<rparr>)"
    using perform_url_write [OF j2 u1] by simp
  have failed_case: ?thesis
    if b: "urlBody env dir u (length done) =
         ([UrlStatusWrite (length done) Processing None,
           UrlStatusWrite (length done) Failed (Some msg)], False)" for msg
  proof -
    have "performAll jid (fst (urlBody env dir u (length done))) w =
        perform jid (UrlStatusWrite (length done) Failed (Some msg)) ?w1"
      by (simp only: b fst_conv performAll_Cons performAll_Nil)
    with fin [of Failed "Some msg"] b show ?thesis
      by (intro exI [of _ "?e1\<lparr> url_status := Failed, url_error := Some msg \<rparr>"]) simp
  qed
  show ?thesis
  proof (cases "navigate_error env")
    case (Some msg)
    then show ?thesis by (intro failed_case [of msg]) (simp add: urlBody_def)
  next
    case None
    note nav = this
    show ?thesis
    proof (cases "pdf_error env")
      case (Some msg)
      with nav show ?thesis by (intro failed_case [of msg]) (simp add: urlBody_def)
    next
      case None
      show ?thesis
      proof (cases "file_exists env")
        case True
        with nav None have b: "urlBody env dir u (length done) =
           ([UrlStatusWrite (length done) Processing None,
             CapturePdf dir (outputFilename u (now_iso env)),
             UrlStatusWrite (length done) Complete None], True)"
          by (simp add: urlBody_def)
        have "performAll jid (fst (urlBody env dir u (length done))) w =
            perform jid (UrlStatusWrite (length done) Complete None) ?w2"
          by (simp only: b fst_conv performAll_Cons performAll_Nil)
        with fin2 [of Complete None] b show ?thesis
          by (intro exI [of _ "?e1\<lparr> url_status := Complete, url_error := None \<rparr>"]) simp
      next
        case False
        with nav None show ?thesis
          by (intro failed_case [of "''PDF file was not created''"]) (simp add: urlBody_def)
      qed
    qed
  qed
qed

text \<open>
  The loop, run to its end from position \<open>length done\<close> on a job whose remaining entries
  are aligned with the remaining URLs: every remaining entry is rewritten to a terminal
  state, the success counter grows by the number of \<^verbatim>\<open>complete\<close> entries and the
  failure counter by the number of \<^verbatim>\<open>failed\<close> ones. Nothing else in the job changes.
\<close>

lemma urlLoop_counts:
  "pdfJobs (storage w) jid = Some job \<Longrightarrow> urlStatuses job = Value (StatusArray (done @ todo)) \<Longrightarrow>
   length todo = length us \<Longrightarrow>
   urlLoop ue dir us (length done) sc fc = (acts, Inr (sc', fc')) \<Longrightarrow>
     \<exists>es. length es = length us \<and>
       pdfJobs (storage (performAll jid acts w)) jid =
         Some (job\<lparr> urlStatuses := Value (StatusArray (done @ es)) \<rparr>) \<and>
       sc' = sc + int (length (filter (\<lambda>e. url_status e = Complete) es)) \<and>
       fc' = fc + int (length (filter (\<lambda>e. url_status e = Failed) es))"
proof (induction us arbitrary: w job "done" todo sc fc acts)
  case Nil
  then have "acts = []" "sc' = sc" "fc' = fc" "todo = []"
    by simp_all
  with Nil(1,2) show ?case
    by (intro exI [of _ "[]"]) (simp add: performAll_Nil)
next
  case (Cons u us)
  from Cons.prems(3) obtain e todo' where todo: "todo = e # todo'" and len: "length todo' = length us"
    by (cases todo) auto
  let ?i = "length done"
  let ?body = "urlBody (ue ?i) dir u ?i"
  let ?sc1 = "if snd ?body then sc + 1 else sc"
  let ?fc1 = "if snd ?body then fc else fc + 1"
  let ?rest = "urlLoop ue dir us (?i + 1) ?sc1 ?fc1"
  from Cons.prems(4) have ctx: "context_error (ue ?i) = None"
    by (cases "context_error (ue ?i)") simp_all
  from Cons.prems(4) ctx have cls: "context_close_error (ue ?i) = None"
    by (cases "context_close_error (ue ?i)") (simp_all add: Let_def)
  from Cons.prems(4) ctx cls have acts: "acts = fst ?body @ fst ?rest"
    and rest: "snd ?rest = Inr (sc', fc')"
    by (simp_all add: Let_def)
  from urlBody_effect [OF Cons.prems(1), of "done" e todo' "ue ?i" dir u] Cons.prems(2) todo
  obtain e' where j1: "pdfJobs (storage (performAll jid (fst ?body) w)) jid =
        Some (job\<lparr> urlStatuses := Value (StatusArray (done @ e' # todo')) \<rparr>)"
    and st: "url_status e' = (if snd ?body then Complete else Failed)"
    by auto
  let ?w1 = "performAll jid (fst ?body) w"
  let ?job1 = "job\<lparr> urlStatuses := Value (StatusArray (done @ e' # todo')) \<rparr>"
  have u1: "urlStatuses ?job1 = Value (StatusArray ((done @ [e']) @ todo'))"
    by simp
  have r1: "urlLoop ue dir us (length (done @ [e'])) ?sc1 ?fc1 = (fst ?rest, Inr (sc', fc'))"
    using rest by (simp add: prod_eq_iff)
  from Cons.IH [OF j1 u1 len r1]
  obtain es where es: "length es = length us"
    and j2: "pdfJobs (storage (performAll jid (fst ?rest) ?w1)) jid =
        Some (?job1\<lparr> urlStatuses := Value (StatusArray ((done @ [e']) @ es)) \<rparr>)"
    and sc: "sc' = ?sc1 + int (length (filter (\<lambda>e. url_status e = Complete) es))"
    and fc: "fc' = ?fc1 + int (length (filter (\<lambda>e. url_status e = Failed) es))"
    by blast
  show ?case
  proof (intro exI [of _ "e' # es"] conjI)
    show "length (e' # es) = length (u # us)"
      using es by simp
    show "pdfJobs (storage (performAll jid acts w)) jid =
        Some (job\<lparr> urlStatuses := Value (StatusArray (done @ e' # es)) \<rparr>)"
      using j2 by (simp add: acts performAll_append)
    show "sc' = sc + int (length (filter (\<lambda>e. url_status e = Complete) (e' # es)))"
      using sc st by simp
    show "fc' = fc + int (length (filter (\<lambda>e. url_status e = Failed) (e' # es)))"
      using fc st by simp
  qed
qed

text \<open>
  The status the routine leaves in a job that exists when it starts: \<^verbatim>\<open>failed\<close> on
  every path that leaves through a \<^verbatim>\<open>catch\<close> block.
\<close>

lemma generatePdfs_failed_path:
  assumes j: "pdfJobs (storage w) jid = Some job"
    and f: "mkdir_error env (effectiveOutputPath path) \<noteq> None \<or> launch_error env \<noteq> None \<or>
       (\<exists>msg. snd (urlLoop (url_env env) (effectiveOutputPath path) us 0 0 0) = Inl msg)"
  shows "jobStatusOf jid (storage (generatePdfs jid us path env w)) = Value ''failed''"
proof (cases "mkdir_error env (effectiveOutputPath path)")
  case (Some msg)
  from generatePdfs_mkdir_failure [OF Some, of us jid w] j show ?thesis
    by (simp add: updateJobStatus_known jobStatusOf_def)
next
  case None
  note mk = this
  let ?w1 = "perform jid (JobStatus ''processing'' None) w"
  from perform_job_status [OF j] have j1: "pdfJobs (storage ?w1) jid \<noteq> None"
    by simp
  show ?thesis
  proof (cases "launch_error env")
    case (Some msg)
    have "generatePdfs jid us path env w = perform jid (JobStatus ''failed'' (Some msg)) ?w1"
      using mk Some
      by (simp only: generatePdfs_def generatePdfs_steps_def Let_def option.case
          performAll_Cons performAll_Nil)
    moreover from j1 obtain job1 where "pdfJobs (storage ?w1) jid = Some job1"
      by auto
    ultimately show ?thesis
      using perform_job_status [of ?w1 jid job1 "''failed''" "Some msg"]
      by (simp add: jobStatusOf_def)
  next
    case None
    with f mk obtain msg where
      l: "snd (urlLoop (url_env env) (effectiveOutputPath path) us 0 0 0) = Inl msg"
      by auto
    let ?loop = "urlLoop (url_env env) (effectiveOutputPath path) us 0 0 0"
    let ?w2 = "perform jid (RegisterBrowser (browser_handle env)) ?w1"
    let ?w3 = "performAll jid (fst ?loop) ?w2"
    have "generatePdfs jid us path env w =
        perform jid (ReleaseBrowser (browser_handle env) (browser_close_error env))
          (perform jid (JobStatus ''failed'' (Some msg)) ?w3)"
      using mk None l
      by (simp only: generatePdfs_def generatePdfs_steps_def Let_def option.case sum.case
          performAll_Cons performAll_Nil performAll_append)
    moreover have "pdfJobs (storage ?w2) jid \<noteq> None"
      using j1 by simp
    then have "pdfJobs (storage ?w3) jid \<noteq> None"
      by (rule performAll_keeps_job)
    then obtain job3 where "pdfJobs (storage ?w3) jid = Some job3"
      by auto
    ultimately show ?thesis
      using perform_job_status [of ?w3 jid job3 "''failed''" "Some msg"]
      by (simp only: perform_release_storage jobStatusOf_def) simp
  qed
qed

text \<open>
  The record the routine leaves when the loop runs to its end, for a job whose entries
  are aligned with the URLs.
\<close>

lemma generatePdfs_completed_path:
  assumes j: "pdfJobs (storage w) jid = Some job"
    and u: "urlStatuses job = Value (StatusArray entries)" and len: "length entries = length us"
    and mk: "mkdir_error env (effectiveOutputPath path) = None"
    and la: "launch_error env = None"
    and l: "snd (urlLoop (url_env env) (effectiveOutputPath path) us 0 0 0) = Inr (sc, fc)"
  shows "\<exists>es. length es = length us \<and>
      sc = int (length (filter (\<lambda>e. url_status e = Complete) es)) \<and>
      fc = int (length (filter (\<lambda>e. url_status e = Failed) es)) \<and>
      pdfJobs (storage (generatePdfs jid us path env w)) jid =
        Some (job\<lparr> status := Value ''completed'', completed := Value True,
                   urlStatuses := Value (StatusArray es), successCount := Value sc,
                   failCount := Value fc, outputPath := Value (effectiveOutputPath path) \<rparr>)"
proof -
  let ?dir = "effectiveOutputPath path"
  let ?loop = "urlLoop (url_env env) ?dir us 0 0 0"
  let ?w1 = "perform jid (JobStatus ''processing'' None) w"
  let ?w2 = "perform jid (RegisterBrowser (browser_handle env)) ?w1"
  let ?w3 = "performAll jid (fst ?loop) ?w2"
  let ?job1 = "job\<lparr> status := Value ''processing'', completed := Value False \<rparr>"
  have g: "generatePdfs jid us path env w =
      perform jid (ReleaseBrowser (browser_handle env) (browser_close_error env))
        (perform jid (WriteCompleted sc fc ?dir) ?w3)"
    using mk la l
    by (simp only: generatePdfs_def generatePdfs_steps_def Let_def option.case sum.case
        prod.case performAll_Cons performAll_Nil performAll_append)
  have j2: "pdfJobs (storage ?w2) jid = Some ?job1"
    using perform_job_status [OF j, of "''processing''" None] by simp
  have u2: "urlStatuses ?job1 = Value (StatusArray ([] @ entries))"
    using u by simp
  have l2: "urlLoop (url_env env) ?dir us (length ([] :: UrlStatus list)) 0 0 = (fst ?loop, Inr (sc, fc))"
    using l by (simp add: prod_eq_iff)
  from urlLoop_counts [OF j2 u2 len l2]
  obtain es where es: "length es = length us"
    and j3: "pdfJobs (storage ?w3) jid = Some (?job1\<lparr> urlStatuses := Value (StatusArray ([] @ es)) \<rparr>)"
    and sc: "sc = 0 + int (length (filter (\<lambda>e. url_status e = Complete) es))"
    and fc: "fc = 0 + int (length (filter (\<lambda>e. url_status e = Failed) es))"
    by blast
  show ?thesis
  proof (intro exI [of _ es] conjI)
    show "length es = length us" by (rule es)
    show "sc = int (length (filter (\<lambda>e. url_status e = Complete) es))" using sc by simp
    show "fc = int (length (filter (\<lambda>e. url_status e = Failed) es))" using fc by simp
    show "pdfJobs (storage (generatePdfs jid us path env w)) jid =
        Some (job\<lparr> status := Value ''completed'', completed := Value True,
                   urlStatuses := Value (StatusArray es), successCount := Value sc,
                   failCount := Value fc, outputPath := Value (?dir) \<rparr>)"
      using perform_write_completed [OF j3, of sc fc ?dir]
      by (simp only: g perform_release_storage) simp
  qed
qed

lemma urlLoop_total:
  "urlLoop ue dir us i sc fc = (acts, Inr (sc', fc')) \<Longrightarrow> sc' + fc' = sc + fc + int (length us)"
proof (induction us arbitrary: i sc fc acts)
  case Nil
  then show ?case by simp
next
  case (Cons u us)
  let ?body = "urlBody (ue i) dir u i"
  let ?sc1 = "if snd ?body then sc + 1 else sc"
  let ?fc1 = "if snd ?body then fc else fc + 1"
  let ?rest = "urlLoop ue dir us (i + 1) ?sc1 ?fc1"
  from Cons.prems have ctx: "context_error (ue i) = None"
    by (cases "context_error (ue i)") simp_all
  from Cons.prems ctx have cls: "context_close_error (ue i) = None"
    by (cases "context_close_error (ue i)") (simp_all add: Let_def)
  from Cons.prems ctx cls have "?rest = (fst ?rest, Inr (sc', fc'))"
    by (simp add: Let_def prod_eq_iff)
  from Cons.IH [OF this] show ?case
    by (simp split: if_splits)
qed

text \<open>
  Run by itself on the record submission stored, the routine keeps the counters in step
  with the entries: if the job ends \<^verbatim>\<open>completed\<close>, then
  \<^verbatim>\<open>successCount + failCount == urls.length\<close>, \<^verbatim>\<open>successCount\<close> is the number of
  \<^verbatim>\<open>complete\<close> entries and \<^verbatim>\<open>failCount\<close> the number of \<^verbatim>\<open>failed\<close> ones.
\<close>

lemma generatePdfs_counts_alone:
  assumes sub: "submit is_url uuid now us path st = Inr (jid, st')"
    and w: "pdfJobs (storage w) jid = pdfJobs st' jid"
    and fin: "pdfJobs (storage (generatePdfs jid us path env w)) jid = Some job'"
    and comp: "status job' = Value ''completed''"
  shows "\<exists>sc fc. successCount job' = Value sc \<and> failCount job' = Value fc \<and>
      sc + fc = int (length us) \<and> urls job' = Value us \<and>
      sc = countState Complete job' \<and> fc = countState Failed job'"
proof -
  let ?job0 = "\<lparr> id_job = Value (currentId st), jobId = Value uuid, urls = Value us,
      outputPath = Value path, status = Value ''pending'', completed = Value False,
      urlStatuses = Value (StatusArray (initialUrlStatuses us)),
      successCount = Absent, failCount = Absent, createdAt = Value now \<rparr>"
  from submit_creates_job [OF sub] w have j: "pdfJobs (storage w) jid = Some ?job0"
    by simp
  have u: "urlStatuses ?job0 = Value (StatusArray (initialUrlStatuses us))"
    by simp
  have len: "length (initialUrlStatuses us) = length us"
    by (simp add: initialUrlStatuses_def)
  let ?loop = "urlLoop (url_env env) (effectiveOutputPath path) us 0 0 0"
  have nofail: "\<not> (mkdir_error env (effectiveOutputPath path) \<noteq> None \<or> launch_error env \<noteq> None \<or>
       (\<exists>msg. snd ?loop = Inl msg))"
  proof
    assume "mkdir_error env (effectiveOutputPath path) \<noteq> None \<or> launch_error env \<noteq> None \<or>
       (\<exists>msg. snd ?loop = Inl msg)"
    from generatePdfs_failed_path [OF j this] fin comp show False
      by (simp add: jobStatusOf_def)
  qed
  then obtain sc fc where l: "snd ?loop = Inr (sc, fc)"
    by (cases "snd ?loop") auto
  from nofail have mk: "mkdir_error env (effectiveOutputPath path) = None"
    and la: "launch_error env = None"
    by simp_all
  from generatePdfs_completed_path [OF j u len mk la l] fin
  obtain es where es: "length es = length us"
    and sc: "sc = int (length (filter (\<lambda>e. url_status e = Complete) es))"
    and fc: "fc = int (length (filter (\<lambda>e. url_status e = Failed) es))"
    and job': "job' = ?job0\<lparr> status := Value ''completed'', completed := Value True,
                   urlStatuses := Value (StatusArray es), successCount := Value sc,
                   failCount := Value fc, outputPath := Value (effectiveOutputPath path) \<rparr>"
    by auto
  have "?loop = (fst ?loop, Inr (sc, fc))"
    using l by (simp add: prod_eq_iff)
  from urlLoop_total [OF this] have total: "sc + fc = int (length us)"
    by simp
  show ?thesis
    using total sc fc by (intro exI [of _ sc] exI [of _ fc]) (simp add: job' countState_def)
qed

text \<open>
  C1 fails on the code once a cancellation runs beside the routine. The first URL of
  job 1 is captured and the second, the last, is in flight when \<^verbatim>\<open>cancelJob\<close> reads
  the job and starts closing the browser. While it waits, the navigation throws and the
  \<^verbatim>\<open>catch\<close> block writes \<^verbatim>\<open>failed\<close> for the second URL and counts it.
  \<^verbatim>\<open>cancelJob\<close> then writes back the object it read at the start, in which that entry
  is \<^verbatim>\<open>processing\<close>. The loop is at its end, nothing was thrown outside the per-URL
  \<^verbatim>\<open>try\<close>, and the routine writes \<^verbatim>\<open>completed\<close> with its counters: the job ends
  \<^verbatim>\<open>completed\<close> with \<^verbatim>\<open>failCount\<close> 1 and no entry \<^verbatim>\<open>failed\<close>. The sum of the
  counters is still the number of URLs.
\<close>

theorem cancelJob_breaks_counts:
  "generatePdfs_steps urls1 ''/tmp/out'' envLastAborted =
     [JobStatus ''processing'' None, RegisterBrowser 7, UrlStatusWrite 0 Processing None,
      CapturePdf ''/tmp/out'' ''a.example_2024-01-01T00-00-01-000Z.pdf'',
      UrlStatusWrite 0 Complete None, UrlStatusWrite 1 Processing None,
      UrlStatusWrite 1 Failed (Some ''Target closed''),
      WriteCompleted 1 1 ''/tmp/out'', ReleaseBrowser 7 None] \<and>
   urlStatesOf ''job-1'' (storage worldLastInFlight) = Some [Complete, Processing] \<and>
   jobStatusOf ''job-1'' (storage worldLostUpdate) = Value ''completed'' \<and>
   urlStatesOf ''job-1'' (storage worldLostUpdate) = Some [Complete, Processing] \<and>
   map_option successCount (pdfJobs (storage worldLostUpdate) ''job-1'') = Some (Value 1) \<and>
   map_option failCount (pdfJobs (storage worldLostUpdate) ''job-1'') = Some (Value 1) \<and>
   map_option (countState Complete) (pdfJobs (storage worldLostUpdate) ''job-1'') = Some 1 \<and>
   map_option (countState Failed) (pdfJobs (storage worldLostUpdate) ''job-1'') = Some 0 \<and>
   int (length urls1) = 2"
  by code_simp

text \<open>
  The routine does reach \<^verbatim>\<open>completed\<close>: when the directory can be created, the
  browser launches, and no context fails to open or to close, the loop returns and the
  job ends \<^verbatim>\<open>completed\<close>, whatever happens inside the per-URL \<^verbatim>\<open>try\<close>.
\<close>

lemma urlLoop_returns:
  "(\<forall>k < length us. context_error (ue (i + k)) = None \<and> context_close_error (ue (i + k)) = None)
   \<Longrightarrow> \<exists>sc' fc'. snd (urlLoop ue dir us i sc fc) = Inr (sc', fc')"
proof (induction us arbitrary: i sc fc)
  case Nil
  show ?case by simp
next
  case (Cons u us)
  from Cons.prems have here: "context_error (ue i) = None" "context_close_error (ue i) = None"
    by force+
  from Cons.prems have "\<forall>k < length us. context_error (ue (i + 1 + k)) = None \<and>
      context_close_error (ue (i + 1 + k)) = None"
    by fastforce
  from Cons.IH [OF this] here show ?case
    by (simp add: Let_def)
qed

lemma generatePdfs_reaches_completed:
  assumes "pdfJobs (storage w) jid = Some job"
    and "urlStatuses job = Value (StatusArray entries)" and "length entries = length us"
    and "mkdir_error env (effectiveOutputPath path) = None" and "launch_error env = None"
    and "\<forall>k < length us. context_error (url_env env k) = None \<and>
           context_close_error (url_env env k) = None"
  shows "jobStatusOf jid (storage (generatePdfs jid us path env w)) = Value ''completed''"
proof -
  from urlLoop_returns [of us "url_env env" 0 "effectiveOutputPath path" 0 0] assms(6)
  obtain sc fc where "snd (urlLoop (url_env env) (effectiveOutputPath path) us 0 0 0) = Inr (sc, fc)"
    by auto
  from generatePdfs_completed_path [OF assms(1-5) this] show ?thesis
    by (auto simp add: jobStatusOf_def)
qed

section \<open>Output file names\<close>

lemma safeTimestamp_length: "length (safeTimestamp ts) = length ts"
  by (simp add: safeTimestamp_def)

lemma isoShape_nth:
  "isoShape ts \<Longrightarrow> i < 24 \<Longrightarrow> isoShapeAt i (ts ! i)"
  by (simp add: isoShape_def list_all_iff)

lemma isDigit_not_sep: "isDigit c \<Longrightarrow> c \<noteq> CHR '':'' \<and> c \<noteq> CHR ''.''"
  by (auto simp add: isDigit_def)

text \<open>
  On a timestamp of the ISO shape the replacement loses nothing: the colons and the
  period sit at fixed positions, and no other position holds one.
\<close>

lemma safeTimestamp_inj:
  assumes a: "isoShape a" and b: "isoShape b" and eq: "safeTimestamp a = safeTimestamp b"
  shows "a = b"
proof (rule nth_equalityI)
  from a b show "length a = length b"
    by (simp add: isoShape_def)
next
  fix i assume "i < length a"
  with a b have i: "i < 24" and la: "i < length a" and lb: "i < length b"
    by (simp_all add: isoShape_def)
  from eq have "safeTimestamp a ! i = safeTimestamp b ! i"
    by simp
  with la lb have m: "(if a ! i = CHR '':'' \<or> a ! i = CHR ''.'' then CHR ''-'' else a ! i) =
      (if b ! i = CHR '':'' \<or> b ! i = CHR ''.'' then CHR ''-'' else b ! i)"
    by (simp add: safeTimestamp_def)
  from isoShape_nth [OF a i] isoShape_nth [OF b i] m show "a ! i = b ! i"
    by (auto simp add: isoShapeAt_def dest: isDigit_not_sep split: if_splits)
qed

lemma same_length_suffix: "length b = length d \<Longrightarrow> a @ b = c @ d \<Longrightarrow> b = d"
  by simp

text \<open>
  C8 is a statement about the wall clock. The file name is the domain part of the URL,
  an underscore, the clock reading with colons and periods replaced, and \<^verbatim>\<open>.pdf\<close>;
  the routine puts no counter or index into it. Two names are therefore told apart by
  the domain parts or by the readings, and what the code adds to the readings is that
  the replacement loses nothing: two readings of the ISO shape that differ give
  different names, whatever the URLs. Whether the readings taken for two URLs of one job
  differ depends on how much time passes between them and on the clock not being set
  back, which the routine does not control.
\<close>

lemma outputFilename_distinct:
  assumes "isoShape t1" and "isoShape t2" and "t1 \<noteq> t2"
  shows "outputFilename u1 t1 \<noteq> outputFilename u2 t2"
proof
  assume eq: "outputFilename u1 t1 = outputFilename u2 t2"
  have len: "length (safeTimestamp t1 @ ''.pdf'') = length (safeTimestamp t2 @ ''.pdf'')"
    using assms(1,2) by (simp add: safeTimestamp_length isoShape_def)
  from eq have "(domainOf u1 @ ''_'') @ (safeTimestamp t1 @ ''.pdf'') =
      (domainOf u2 @ ''_'') @ (safeTimestamp t2 @ ''.pdf'')"
    by (simp add: outputFilename_def)
  from same_length_suffix [OF len this]
  have "safeTimestamp t1 @ ''.pdf'' = safeTimestamp t2 @ ''.pdf''" .
  then have "safeTimestamp t1 = safeTimestamp t2"
    by simp
  from safeTimestamp_inj [OF assms(1,2) this] assms(3) show False
    by simp
qed

lemma outputFilename_example:
  "outputFilename ''https://a.example/x'' ''2024-01-01T00:00:01.000Z'' =
     ''a.example_2024-01-01T00-00-01-000Z.pdf'' \<and>
   outputFilename ''https://www.a.example/y'' ''2024-01-01T00:00:04.250Z'' =
     ''a.example_2024-01-01T00-00-04-250Z.pdf'' \<and>
   isoShape ''2024-01-01T00:00:01.000Z'' \<and> isoShape ''2024-01-01T00:00:04.250Z''"
  by code_simp

section \<open>The order of per-URL states\<close>

subsection \<open>The routine's own writes move forward\<close>

lemma forwardStep_refl: "list_all2 forwardStep xs xs"
  by (simp add: list_all2_refl forwardStep_def)

lemma statesForward_same:
  "urlStatesOf jid (storage w') = urlStatesOf jid (storage w) \<Longrightarrow> statesForward jid w w'"
  by (simp add: statesForward_def forwardStep_refl split: option.splits)

lemma urlStatesOf_job_status:
  "urlStatesOf jid (updateJobStatus jid s err st) = urlStatesOf jid st"
  by (simp add: urlStatesOf_def updateJobStatus_def getPdfJob_def updatePdfJob_def
      merge_job_status Let_def split: option.splits)

lemma urlStatesOf_write_completed:
  "urlStatesOf jid (writeCompleted jid sc fc dir st) = urlStatesOf jid st"
  by (simp add: urlStatesOf_def writeCompleted_def getPdfJob_def updatePdfJob_def
      merge_completed Let_def split: option.splits)

lemma statesForward_other:
  "\<not> (\<exists>i s err. a = UrlStatusWrite i s err) \<Longrightarrow> statesForward jid w (perform jid a w)"
  by (cases a)
    (auto simp add: statesForward_same urlStatesOf_job_status urlStatesOf_write_completed
      closeAndDeregister_def split: option.splits)

lemma forwardRun_append:
  "forwardRun jid (xs @ ys) w = (forwardRun jid xs w \<and> forwardRun jid ys (performAll jid xs w))"
  by (induction xs arbitrary: w) (simp_all add: performAll_Nil performAll_Cons)

lemma statesForward_url_write:
  assumes "pdfJobs (storage w) jid = Some job"
    and "urlStatuses job = Value (StatusArray (done @ e # todo))"
    and "forwardStep (url_status e) s"
  shows "statesForward jid w (perform jid (UrlStatusWrite (length done) s err) w)"
  using assms perform_url_write [OF assms(1,2), of s err]
  by (simp add: statesForward_def urlStatesOf_def list_all2_appendI forwardStep_refl
      del: perform.simps)

text \<open>One pass of the loop body on a \<^verbatim>\<open>pending\<close> entry respects the order.\<close>

lemma urlBody_forward:
  assumes j: "pdfJobs (storage w) jid = Some job"
    and u: "urlStatuses job = Value (StatusArray (done @ e # todo))"
    and p: "url_status e = Pending"
  shows "forwardRun jid (fst (urlBody env dir u' (length done))) w"
proof -
  let ?w1 = "perform jid (UrlStatusWrite (length done) Processing None) w"
  let ?e1 = "e\<lparr> url_status := Processing, url_error := None \<rparr>"
  let ?job1 = "job\<lparr> urlStatuses := Value (StatusArray (done @ ?e1 # todo)) \<rparr>"
  have s1: "statesForward jid w ?w1"
    using statesForward_url_write [OF j u, of Processing None] p
    by (simp add: forwardStep_def del: perform.simps)
  have j1: "pdfJobs (storage ?w1) jid = Some ?job1"
    using perform_url_write [OF j u] .
  have u1: "urlStatuses ?job1 = Value (StatusArray (done @ ?e1 # todo))"
    by simp
  have t1: "statesForward jid ?w1 (perform jid (UrlStatusWrite (length done) s err) ?w1)"
    if "s = Complete \<or> s = Failed" for s err
    using statesForward_url_write [OF j1 u1, of s err] that
    by (auto simp add: forwardStep_def simp del: perform.simps)
  let ?w2 = "perform jid (CapturePdf dir (outputFilename u' (now_iso env))) ?w1"
  have s2: "statesForward jid ?w1 ?w2"
    by (rule statesForward_other) simp
  have j2: "pdfJobs (storage ?w2) jid = Some ?job1"
    using j1 by simp
  have t2: "statesForward jid ?w2 (perform jid (UrlStatusWrite (length done) Complete None) ?w2)"
    using statesForward_url_write [OF j2 u1, of Complete None]
    by (simp add: forwardStep_def del: perform.simps)
  have shapes: "fst (urlBody env dir u' (length done)) =
        [UrlStatusWrite (length done) Processing None,
         CapturePdf dir (outputFilename u' (now_iso env)),
         UrlStatusWrite (length done) Complete None] \<or>
      (\<exists>msg. fst (urlBody env dir u' (length done)) =
        [UrlStatusWrite (length done) Processing None,
         UrlStatusWrite (length done) Failed (Some msg)])"
    by (simp add: urlBody_def Let_def split: option.splits)
  then show ?thesis
  proof
    assume "fst (urlBody env dir u' (length done)) =
        [UrlStatusWrite (length done) Processing None,
         CapturePdf dir (outputFilename u' (now_iso env)),
         UrlStatusWrite (length done) Complete None]"
    with s1 s2 t2 show ?thesis
      by (simp del: perform.simps)
  next
    assume "\<exists>msg. fst (urlBody env dir u' (length done)) =
        [UrlStatusWrite (length done) Processing None,
         UrlStatusWrite (length done) Failed (Some msg)]"
    then obtain msg where "fst (urlBody env dir u' (length done)) =
        [UrlStatusWrite (length done) Processing None,
         UrlStatusWrite (length done) Failed (Some msg)]" ..
    with s1 t1 [of Failed "Some msg"] show ?thesis
      by (simp del: perform.simps)
  qed
qed

lemma urlLoop_forward:
  "pdfJobs (storage w) jid = Some job \<Longrightarrow> urlStatuses job = Value (StatusArray (done @ todo)) \<Longrightarrow>
   length todo = length us \<Longrightarrow> list_all (\<lambda>e. url_status e = Pending) todo \<Longrightarrow>
     forwardRun jid (fst (urlLoop ue dir us (length done) sc fc)) w"
proof (induction us arbitrary: w job "done" todo sc fc)
  case Nil
  show ?case by simp
next
  case (Cons u us)
  from Cons.prems(3) obtain e todo' where todo: "todo = e # todo'" and len: "length todo' = length us"
    by (cases todo) auto
  from Cons.prems(4) todo have pe: "url_status e = Pending"
    and pt: "list_all (\<lambda>e. url_status e = Pending) todo'"
    by simp_all
  let ?i = "length done"
  let ?body = "urlBody (ue ?i) dir u ?i"
  let ?sc1 = "if snd ?body then sc + 1 else sc"
  let ?fc1 = "if snd ?body then fc else fc + 1"
  let ?rest = "urlLoop ue dir us (?i + 1) ?sc1 ?fc1"
  have u0: "urlStatuses job = Value (StatusArray (done @ e # todo'))"
    using Cons.prems(2) todo by simp
  have fb: "forwardRun jid (fst ?body) w"
    by (rule urlBody_forward [OF Cons.prems(1) u0 pe])
  from urlBody_effect [OF Cons.prems(1) u0, of "ue ?i" dir u]
  obtain e' where j1: "pdfJobs (storage (performAll jid (fst ?body) w)) jid =
        Some (job\<lparr> urlStatuses := Value (StatusArray (done @ e' # todo')) \<rparr>)"
    by auto
  have u1: "urlStatuses (job\<lparr> urlStatuses := Value (StatusArray (done @ e' # todo')) \<rparr>) =
      Value (StatusArray ((done @ [e']) @ todo'))"
    by simp
  from Cons.IH [OF j1 u1 len pt]
  have fr: "forwardRun jid (fst ?rest) (performAll jid (fst ?body) w)"
    by simp
  show ?case
  proof (cases "context_error (ue ?i)")
    case (Some msg)
    then show ?thesis by simp
  next
    case None
    note ctx = this
    show ?thesis
    proof (cases "context_close_error (ue ?i)")
      case (Some msg)
      with ctx fb show ?thesis by (simp add: Let_def)
    next
      case None
      with ctx fb fr show ?thesis by (simp add: Let_def forwardRun_append)
    qed
  qed
qed

text \<open>
  Run by itself on a job as submission stored it, the routine never moves a per-URL
  status backwards and never skips \<^verbatim>\<open>processing\<close>.
\<close>

lemma generatePdfs_forward:
  assumes sub: "submit is_url uuid now us path st = Inr (jid, st')"
    and w: "pdfJobs (storage w) jid = pdfJobs st' jid"
  shows "forwardRun jid (generatePdfs_steps us path env) w"
proof -
  let ?job0 = "\<lparr> id_job = Value (currentId st), jobId = Value uuid, urls = Value us,
      outputPath = Value path, status = Value ''pending'', completed = Value False,
      urlStatuses = Value (StatusArray (initialUrlStatuses us)),
      successCount = Absent, failCount = Absent, createdAt = Value now \<rparr>"
  from submit_creates_job [OF sub] w have j: "pdfJobs (storage w) jid = Some ?job0"
    by simp
  let ?dir = "effectiveOutputPath path"
  let ?loop = "urlLoop (url_env env) ?dir us 0 0 0"
  let ?w1 = "perform jid (JobStatus ''processing'' None) w"
  let ?w2 = "perform jid (RegisterBrowser (browser_handle env)) ?w1"
  let ?job1 = "?job0\<lparr> status := Value ''processing'', completed := Value False \<rparr>"
  have other: "\<And>a v. \<not> (\<exists>i s err. a = UrlStatusWrite i s err) \<Longrightarrow> forwardRun jid [a] v"
    using statesForward_other by (simp del: perform.simps)
  have j2: "pdfJobs (storage ?w2) jid = Some ?job1"
    using perform_job_status [OF j, of "''processing''" None] by simp
  have u2: "urlStatuses ?job1 = Value (StatusArray ([] @ initialUrlStatuses us))"
    by simp
  have "forwardRun jid (fst (urlLoop (url_env env) ?dir us (length ([] :: UrlStatus list)) 0 0)) ?w2"
    by (rule urlLoop_forward [OF j2 u2])
      (simp_all add: initialUrlStatuses_def list_all_iff)
  then have fl: "forwardRun jid (fst ?loop) ?w2"
    by simp
  have tail: "forwardRun jid
      ((case snd ?loop of Inl msg \<Rightarrow> [JobStatus ''failed'' (Some msg)]
        | Inr (sc, fc) \<Rightarrow> [WriteCompleted sc fc ?dir]) @
       [ReleaseBrowser (browser_handle env) (browser_close_error env)]) v" for v
    by (cases "snd ?loop") (auto simp add: statesForward_other simp del: perform.simps)
  show ?thesis
  proof (cases "mkdir_error env ?dir")
    case (Some msg)
    then show ?thesis
      by (simp add: generatePdfs_steps_def Let_def other del: forwardRun.simps)
  next
    case None
    note mk = this
    show ?thesis
    proof (cases "launch_error env")
      case (Some msg)
      with mk show ?thesis
        using other [of "JobStatus ''processing'' None" w]
          other [of "JobStatus ''failed'' (Some msg)" ?w1]
        by (simp add: generatePdfs_steps_def Let_def)
    next
      case None
      have "generatePdfs_steps us path env =
          [JobStatus ''processing'' None] @ [RegisterBrowser (browser_handle env)] @ fst ?loop @
          ((case snd ?loop of Inl msg \<Rightarrow> [JobStatus ''failed'' (Some msg)]
            | Inr (sc, fc) \<Rightarrow> [WriteCompleted sc fc ?dir]) @
           [ReleaseBrowser (browser_handle env) (browser_close_error env)])"
        using mk None by (simp add: generatePdfs_steps_def Let_def)
      then show ?thesis
        using fl tail other [of "JobStatus ''processing'' None" w]
          other [of "RegisterBrowser (browser_handle env)" ?w1]
        by (simp only: forwardRun_append performAll_Cons performAll_Nil) simp
    qed
  qed
qed

subsection \<open>Under cancellation\<close>

text \<open>
  C2 fails on the code once a cancellation runs beside the routine. The first URL of
  job 1 is in flight (\<^verbatim>\<open>processing\<close>) when \<^verbatim>\<open>cancelJob\<close> reads the job and starts
  closing the browser. While it waits, the routine's navigation throws and its
  \<^verbatim>\<open>catch\<close> block writes \<^verbatim>\<open>failed\<close> for the URL. \<^verbatim>\<open>cancelJob\<close> then writes back the
  whole object it read at the start, and the entry is \<^verbatim>\<open>processing\<close> again: a terminal
  per-URL state has changed.
\<close>

theorem cancelJob_resets_url_status:
  "urlStatesOf ''job-1'' (storage worldInFlight) = Some [Processing, Pending] \<and>
   generatePdfs_steps urls1 ''/tmp/out'' envSessionClosed ! 3
     = UrlStatusWrite 0 Failed (Some ''Target closed'') \<and>
   urlStatesOf ''job-1''
     (storage (performAll ''job-1'' [UrlStatusWrite 0 Failed (Some ''Target closed'')] worldInFlight))
     = Some [Failed, Pending] \<and>
   fst (cancelJob_during ''job-1'' None [UrlStatusWrite 0 Failed (Some ''Target closed'')]
          worldInFlight) = True \<and>
   urlStatesOf ''job-1''
     (storage (snd (cancelJob_during ''job-1'' None
        [UrlStatusWrite 0 Failed (Some ''Target closed'')] worldInFlight)))
     = Some [Processing, Pending] \<and>
   jobStatusOf ''job-1''
     (storage (snd (cancelJob_during ''job-1'' None
        [UrlStatusWrite 0 Failed (Some ''Target closed'')] worldInFlight)))
     = Value ''cancelled'' \<and>
   \<not> statesForward ''job-1''
     (performAll ''job-1'' [UrlStatusWrite 0 Failed (Some ''Target closed'')] worldInFlight)
     (snd (cancelJob_during ''job-1'' None
        [UrlStatusWrite 0 Failed (Some ''Target closed'')] worldInFlight))"
  by code_simp

end
